theory Spec2Isabelle
  imports Main
begin

section \<open>JavaScript values\<close>

text \<open>
  The plugin host passes untyped JavaScript values over its tunnel. A value is
  \<open>undefined\<close>, \<open>null\<close>, a boolean, a number (integers only: no message of the
  protocol carries a fraction), a string, or an object holding its own properties in
  insertion order. An \<open>Error\<close> object is an object with a \<open>name\<close>, a
  \<open>message\<close> and, where the code assigns one, a \<open>stack\<close>; the stack string the
  runtime attaches by itself is not represented.
\<close>

datatype jsval =
    JUndefined
  | JNull
  | JBool bool
  | JNum int
  | JStr string
  | JObj "(string \<times> jsval) list"

text \<open>What a \<open>throw\<close> or a rejected promise carries: a value the program threw, or the
  \<open>TypeError\<close> the runtime raises when a property of \<open>undefined\<close> or \<open>null\<close> is read.\<close>

datatype js_exn = TypeError | Thrown jsval

text \<open>The state of a promise as its consumer sees it.\<close>

datatype 'a promise = Resolved 'a | Rejected js_exn | Pending

text \<open>\<open>if (v)\<close>: JavaScript truthiness.\<close>

fun truthy :: "jsval \<Rightarrow> bool" where
  "truthy JUndefined = False"
| "truthy JNull = False"
| "truthy (JBool b) = b"
| "truthy (JNum n) = (n \<noteq> 0)"
| "truthy (JStr s) = (s \<noteq> [])"
| "truthy (JObj fs) = True"

text \<open>\<open>a || b\<close>.\<close>

definition js_or :: "jsval \<Rightarrow> jsval \<Rightarrow> jsval" where
  "js_or a b = (if truthy a then a else b)"

text \<open>
  \<open>v.k\<close> for the property names the host reads (\<open>type\<close>, \<open>sid\<close>, \<open>status\<close>,
  \<open>response\<close>, \<open>message\<close>, \<open>stack\<close>, \<open>stats\<close>, \<open>code\<close>, \<open>id\<close>, \<open>path\<close>,
  \<open>data\<close>). Reading from \<open>undefined\<close> or \<open>null\<close> raises a \<open>TypeError\<close>; a primitive
  has none of these properties; an object yields its own property or \<open>undefined\<close>.
  \<open>field\<close> is the read once the value is known not to be \<open>undefined\<close> or \<open>null\<close>.
\<close>

definition nullish :: "jsval \<Rightarrow> bool" where
  "nullish v = (v = JUndefined \<or> v = JNull)"

fun field :: "jsval \<Rightarrow> string \<Rightarrow> jsval" where
  "field (JObj fs) k = (case map_of fs k of None \<Rightarrow> JUndefined | Some v \<Rightarrow> v)"
| "field v k = JUndefined"

definition get_prop :: "jsval \<Rightarrow> string \<Rightarrow> js_exn + jsval" where
  "get_prop v k = (if nullish v then Inl TypeError else Inr (field v k))"

text \<open>Decimal rendering of a number, as \<open>String(n)\<close> gives it for an integer.\<close>

definition digit_char :: "nat \<Rightarrow> char" where
  "digit_char d = char_of (d + 48)"

fun decimal :: "nat \<Rightarrow> string" where
  "decimal n = (if 10 \<le> n then decimal (n div 10) @ [digit_char (n mod 10)] else [digit_char n])"

declare decimal.simps [simp del]

definition number_string :: "int \<Rightarrow> string" where
  "number_string i = (if 0 \<le> i then decimal (nat i) else CHR ''-'' # decimal (nat (- i)))"

text \<open>\<open>String(v)\<close>: the conversion a template literal and a property key apply.\<close>

fun to_string :: "jsval \<Rightarrow> string" where
  "to_string JUndefined = ''undefined''"
| "to_string JNull = ''null''"
| "to_string (JBool b) = (if b then ''true'' else ''false'')"
| "to_string (JNum n) = number_string n"
| "to_string (JStr s) = s"
| "to_string (JObj fs) = ''[object Object]''"

text \<open>\<open>new Error(m)\<close>.\<close>

definition new_Error :: "jsval \<Rightarrow> jsval" where
  "new_Error m = JObj [(''name'', JStr ''Error''), (''message'', m)]"

text \<open>\<open>a && b\<close>, and the value a rejection or a \<open>catch\<close> hands to its handler.\<close>

definition js_and :: "jsval \<Rightarrow> jsval \<Rightarrow> jsval" where
  "js_and a b = (if truthy a then b else a)"

fun exn_value :: "js_exn \<Rightarrow> jsval" where
  "exn_value TypeError = JObj [(''name'', JStr ''TypeError'')]"
| "exn_value (Thrown v) = v"

text \<open>\<open>o.k = v\<close> on an object: the property keeps its place when it exists, and is
  appended otherwise.\<close>

fun set_field :: "string \<Rightarrow> jsval \<Rightarrow> (string \<times> jsval) list \<Rightarrow> (string \<times> jsval) list" where
  "set_field k v [] = [(k, v)]"
| "set_field k v ((k', v') # fs) =
     (if k = k' then (k, v) # fs else (k', v') # set_field k v fs)"

section \<open>Effects\<close>

text \<open>
  Everything a handler does to the world outside its own state, in the order it does
  it. \<open>Send\<close> is the scoped reply callback \<open>send\<close> the Tunnel hands to its handler;
  \<open>ThisSend\<close> is a call of the method \<open>this.send\<close> of the plugin object, which
  \<open>ExternalPlugin\<close> does not define; \<open>TunnelSend\<close> and \<open>TunnelEmit\<close> are
  \<open>this.tunnel.send\<close> and \<open>this.tunnel.emit\<close>. Of the logger only \<open>warn\<close> and
  \<open>error\<close> are recorded. \<open>SetState\<close> is a call of \<open>this.setState\<close>, which
  \<open>PluginBase\<close> defines outside these sources: the call is recorded with its two
  arguments. \<open>StartResolve\<close> and \<open>StartReject\<close> are the \<open>resolve\<close> and \<open>reject\<close> of
  the promise \<open>startParent\<close> returns; \<open>DispatcherCall\<close> is \<open>Dispatcher.call(path, data)\<close>
  and \<open>LoggerDispatch\<close> is \<open>appcdLogger.dispatch\<close>.
\<close>

datatype plugin_state = STOPPED | STARTING | STARTED | STOPPING

datatype effect =
    Send jsval
  | ThisSend jsval
  | TunnelSend jsval
  | TunnelEmit jsval
  | LogWarn jsval
  | LogError jsval
  | StreamEnd nat
  | WatcherClose nat
  | ModuleDeactivate
  | StartResolve
  | StartReject jsval
  | SetState plugin_state jsval
  | ProcessExit int
  | LoggerDispatch jsval
  | DispatcherCall jsval jsval

text \<open>The Tunnel as its owner sees it: the promise \<open>send\<close> returns for a message.\<close>

type_synonym tunnel = "jsval \<Rightarrow> jsval promise"

section \<open>The forwarding entry point \<open>globals.appcd.call\<close>\<close>

definition appcd_call :: "tunnel option \<Rightarrow> jsval \<Rightarrow> jsval \<Rightarrow> effect list \<times> jsval promise" where
  "appcd_call tunnel path data =
     (case tunnel of
        None \<Rightarrow> ([], Rejected (Thrown (new_Error (JStr ''Tunnel not initialized!''))))
      | Some t \<Rightarrow>
          (let msg = JObj [(''path'', path), (''data'', data)]
           in ([TunnelSend msg], t msg)))"

section \<open>Parent-side \<open>dispatch\<close>\<close>

record dispatch_ctx =
  ctx_path :: jsval
  ctx_request :: jsval
  ctx_status :: jsval
  ctx_response :: jsval

text \<open>What \<open>dispatch\<close> gives its caller: the result of \<open>next()\<close>, a promise that
  resolves with the context, a promise that rejects, or one that never settles.\<close>

datatype dispatch_result =
    Next
  | Ctx dispatch_ctx
  | Fail js_exn
  | Unsettled

definition dispatch :: "tunnel option \<Rightarrow> dispatch_ctx \<Rightarrow> effect list \<times> dispatch_result" where
  "dispatch tunnel ctx =
     (case tunnel of
        None \<Rightarrow> ([], Next)
      | Some t \<Rightarrow>
          (let msg = JObj [(''path'', ctx_path ctx), (''data'', ctx_request ctx)]
           in ([TunnelSend msg],
               case t msg of
                 Pending \<Rightarrow> Unsettled
               | Rejected e \<Rightarrow> Fail e
               | Resolved res \<Rightarrow>
                   (case get_prop res ''status'' of
                      Inl e \<Rightarrow> Fail e
                    | Inr status \<Rightarrow>
                        if status = JNum 404 then Next
                        else (case get_prop res ''response'' of
                                Inl e \<Rightarrow> Fail e
                              | Inr response \<Rightarrow>
                                  Ctx (ctx\<lparr>ctx_status := status, ctx_response := response\<rparr>))))))"

section \<open>The plugin host's own state\<close>

text \<open>
  The fields of \<open>this\<close> that the parent-side handlers read and write: the Tunnel
  (\<open>None\<close> for \<open>null\<close>), the fields of \<open>this.info\<close>, the filesystem watchers by
  directory (each watcher a handle, in the order \<open>Object.keys\<close> lists them) and the
  stream registry \<open>this.streams\<close>.

  The registry is a plain object, \<open>{}\<close>, used as a map from property key to stream:
  \<open>streams\<close> holds its own properties, \<open>streams_proto\<close> its prototype, which is
  \<open>Object.prototype\<close> (\<open>None\<close>) until an assignment to the key \<open>__proto__\<close> puts a
  stream in its place. A read finds an own property first and an inherited one
  otherwise; a write to any key but \<open>__proto__\<close> makes an own property; \<open>delete\<close>
  removes an own property and nothing else.
\<close>

record host =
  tunnel :: "tunnel option"
  info_pid :: jsval
  info_exitCode :: jsval
  info_error :: jsval
  info_stack :: jsval
  info_state :: plugin_state
  info_stats :: jsval
  watchers :: "(string \<times> nat) list"
  streams :: "string \<rightharpoonup> nat"
  streams_proto :: "nat option"

text \<open>The property names every object inherits from \<open>Object.prototype\<close>; each holds a
  function, but for \<open>__proto__\<close>, which yields the prototype itself.\<close>

definition object_prototype_keys :: "string list" where
  "object_prototype_keys =
     [''constructor'', ''__defineGetter__'', ''__defineSetter__'', ''hasOwnProperty'',
      ''__lookupGetter__'', ''__lookupSetter__'', ''isPrototypeOf'',
      ''propertyIsEnumerable'', ''toString'', ''valueOf'', ''__proto__'',
      ''toLocaleString'']"

text \<open>
  What \<open>this.streams[key]\<close> yields: a stream (it has \<open>end()\<close>), a truthy value that is
  no stream (calling its \<open>end\<close> raises a \<open>TypeError\<close>), or a falsy value. What a stream
  that has become the prototype yields for a key is the stream class's business, which
  is outside these sources: \<open>through\<close> gives it.
\<close>

datatype slot = Registered nat | Foreign | Vacant

definition streams_get :: "(nat \<Rightarrow> string \<Rightarrow> slot) \<Rightarrow> host \<Rightarrow> string \<Rightarrow> slot" where
  "streams_get through h key =
     (case streams h key of
        Some response \<Rightarrow> Registered response
      | None \<Rightarrow>
          (case streams_proto h of
             None \<Rightarrow> if key \<in> set object_prototype_keys then Foreign else Vacant
           | Some p \<Rightarrow> if key = ''__proto__'' then Registered p else through p key))"

definition streams_put :: "string \<Rightarrow> nat \<Rightarrow> host \<Rightarrow> host" where
  "streams_put key response h =
     (if key = ''__proto__'' then h\<lparr>streams_proto := Some response\<rparr>
      else h\<lparr>streams := (streams h)(key \<mapsto> response)\<rparr>)"

definition streams_delete :: "string \<Rightarrow> host \<Rightarrow> host" where
  "streams_delete key h = h\<lparr>streams := (streams h)(key := None)\<rparr>"

section \<open>Stream-to-message relay\<close>

text \<open>
  What a response stream emits. The relay attaches \<open>on('data')\<close>, \<open>once('end')\<close> and
  \<open>once('error')\<close>; a listener attached with \<open>once\<close> is removed before it runs, and an
  \<open>error\<close> event with no listener left is thrown by the emitter. A handler that throws
  ends the emit: the exception goes back to whoever made the stream emit.
  The state of one relay is its closure variable \<open>sid\<close>, the two \<open>once\<close> listeners and
  \<open>this\<close>.
\<close>

datatype stream_event = Data jsval | End | Error jsval

record 's relay =
  sid :: jsval
  end_once :: bool
  error_once :: bool
  self :: 's

type_synonym 's handled = "'s \<times> effect list \<times> js_exn option"

definition fin_message :: "jsval \<Rightarrow> jsval" where
  "fin_message s = JObj [(''sid'', s), (''type'', JStr ''fin'')]"

definition error_message :: "jsval \<Rightarrow> jsval" where
  "error_message err =
     JObj [(''message'', js_or (field err ''message'') err),
           (''stack'', field err ''stack''),
           (''status'', js_or (field err ''status'') (JNum 500)),
           (''type'', JStr ''error'')]"

text \<open>Parent side (\<open>startParent\<close>): \<open>response\<close> is the handle of the stream relayed.\<close>

definition parent_on_data :: "nat \<Rightarrow> jsval \<Rightarrow> host relay \<Rightarrow> host relay handled" where
  "parent_on_data response message st =
     (if nullish message then (st, [], Some TypeError)
      else
        (let st1 =
               (if field message ''type'' = JStr ''subscribe''
                then st\<lparr>sid := field message ''sid'',
                        self := streams_put (to_string (field message ''sid'')) response (self st)\<rparr>
                else st)
         in (st1, [Send message], None)))"

definition parent_on_end :: "host relay \<Rightarrow> host relay handled" where
  "parent_on_end st =
     (st\<lparr>self := streams_delete (to_string (sid st)) (self st)\<rparr>,
      (if truthy (sid st) then [Send (fin_message (sid st))] else []),
      None)"

definition parent_on_error :: "jsval \<Rightarrow> host relay \<Rightarrow> host relay handled" where
  "parent_on_error err st =
     (let st1 = st\<lparr>self := streams_delete (to_string (sid st)) (self st)\<rparr>;
          logs = [LogError (JStr ''Response stream error:''), LogError err]
      in if nullish err then (st1, logs, Some TypeError)
         else (st1, logs @ [ThisSend (error_message err)], None))"

text \<open>Child side (\<open>startChild\<close>): no registry; every item is rebuilt with a \<open>type\<close>.\<close>

definition child_res :: "jsval \<Rightarrow> jsval \<Rightarrow> jsval" where
  "child_res s message =
     (let ty = js_or (field message ''type'') (if truthy s then JStr ''event'' else JUndefined)
      in case message of
           JObj fs \<Rightarrow> JObj (set_field ''type'' ty fs)
         | _ \<Rightarrow> JObj [(''message'', message), (''type'', ty)])"

definition child_on_data :: "jsval \<Rightarrow> 's relay \<Rightarrow> 's relay handled" where
  "child_on_data message st =
     (if nullish message then (st, [], Some TypeError)
      else
        (let st1 = (if field message ''type'' = JStr ''subscribe''
                    then st\<lparr>sid := field message ''sid''\<rparr> else st)
         in (st1, [Send (child_res (sid st1) message)], None)))"

definition child_on_end :: "'s relay \<Rightarrow> 's relay handled" where
  "child_on_end st = (st, (if truthy (sid st) then [Send (fin_message (sid st))] else []), None)"

definition child_on_error :: "jsval \<Rightarrow> 's relay \<Rightarrow> 's relay handled" where
  "child_on_error err st =
     (let logs = [LogError (JStr ''Response stream error:''), LogError err]
      in if nullish err then (st, logs, Some TypeError)
         else (st, logs @ [ThisSend (error_message err)], None))"

text \<open>The emitter: one event, then a whole trace of events.\<close>

fun emit_event ::
  "(jsval \<Rightarrow> 's relay \<Rightarrow> 's relay handled) \<Rightarrow> ('s relay \<Rightarrow> 's relay handled) \<Rightarrow>
   (jsval \<Rightarrow> 's relay \<Rightarrow> 's relay handled) \<Rightarrow> stream_event \<Rightarrow> 's relay \<Rightarrow> 's relay handled" where
  "emit_event on_data on_end on_error (Data m) st = on_data m st"
| "emit_event on_data on_end on_error End st =
     (if end_once st then on_end (st\<lparr>end_once := False\<rparr>) else (st, [], None))"
| "emit_event on_data on_end on_error (Error err) st =
     (if error_once st then on_error err (st\<lparr>error_once := False\<rparr>)
      else (st, [], Some (Thrown err)))"

fun emit_all ::
  "(jsval \<Rightarrow> 's relay \<Rightarrow> 's relay handled) \<Rightarrow> ('s relay \<Rightarrow> 's relay handled) \<Rightarrow>
   (jsval \<Rightarrow> 's relay \<Rightarrow> 's relay handled) \<Rightarrow> stream_event list \<Rightarrow> 's relay \<Rightarrow> 's relay handled" where
  "emit_all on_data on_end on_error [] st = (st, [], None)"
| "emit_all on_data on_end on_error (ev # evs) st =
     (case emit_event on_data on_end on_error ev st of
        (st1, out, Some exn) \<Rightarrow> (st1, out, Some exn)
      | (st1, out, None) \<Rightarrow>
          (case emit_all on_data on_end on_error evs st1 of
             (st2, out2, r) \<Rightarrow> (st2, out @ out2, r)))"

text \<open>A relay as the code sets it up: \<open>let sid;\<close> and the three listeners attached.\<close>

definition new_relay :: "'s \<Rightarrow> 's relay" where
  "new_relay this = \<lparr>sid = JUndefined, end_once = True, error_once = True, self = this\<rparr>"

definition parent_relay :: "nat \<Rightarrow> stream_event list \<Rightarrow> host \<Rightarrow> host relay handled" where
  "parent_relay response evs this =
     emit_all (parent_on_data response) parent_on_end parent_on_error evs (new_relay this)"

definition child_relay :: "stream_event list \<Rightarrow> 's \<Rightarrow> 's relay handled" where
  "child_relay evs this = emit_all child_on_data child_on_end child_on_error evs (new_relay this)"

text \<open>The messages a trace of effects sent through the scoped reply callback.\<close>

fun sent :: "effect list \<Rightarrow> jsval list" where
  "sent [] = []"
| "sent (Send m # es) = m # sent es"
| "sent (e # es) = sent es"

section \<open>Parent side: messages from the child\<close>

text \<open>
  The handler \<open>startParent\<close> gives its Tunnel: a \<open>switch\<close> on \<open>req.type\<close>.
  \<open>logger_id\<close> is \<open>appcdLogger._id\<close>. The module is strict code, so assigning
  \<open>req.message.id\<close> on anything but an object raises a \<open>TypeError\<close>. In the
  \<open>unsubscribe\<close> case the registry is read with \<open>this.streams[req.sid]\<close>: whatever
  truthy value the read finds has its \<open>end\<close> called before the key is deleted.
\<close>

definition parent_on_message ::
  "(nat \<Rightarrow> string \<Rightarrow> slot) \<Rightarrow> jsval \<Rightarrow> jsval \<Rightarrow> host \<Rightarrow> host handled" where
  "parent_on_message through logger_id req h =
     (if nullish req then (h, [], Some TypeError)
      else if field req ''type'' = JStr ''activated'' then (h, [StartResolve], None)
      else if field req ''type'' = JStr ''activation_error'' then
        (h\<lparr>info_error := field req ''message'', info_stack := field req ''stack''\<rparr>, [], None)
      else if field req ''type'' = JStr ''log'' then
        (case field req ''message'' of
           JObj fs \<Rightarrow> (h, [LoggerDispatch (JObj (set_field ''id'' logger_id fs))], None)
         | _ \<Rightarrow> (h, [], Some TypeError))
      else if field req ''type'' = JStr ''stats'' then
        (h\<lparr>info_stats := field req ''stats''\<rparr>, [], None)
      else if field req ''type'' = JStr ''unsubscribe'' then
        (case streams_get through h (to_string (field req ''sid'')) of
           Registered response \<Rightarrow>
             (streams_delete (to_string (field req ''sid'')) h, [StreamEnd response], None)
         | Foreign \<Rightarrow> (h, [], Some TypeError)
         | Vacant \<Rightarrow> (h, [], None))
      else if truthy (field req ''id'') then
        (if nullish (field req ''message'') then (h, [], Some TypeError)
         else (h, [DispatcherCall (field (field req ''message'') ''path'')
                                  (field (field req ''message'') ''data'')], None))
      else (h, [], None))"

text \<open>
  What \<open>Dispatcher.call\<close> settles with, and what the parent then does with it: a
  readable stream gets the relay's listeners, an \<open>Error\<close> response is sent as it is,
  anything else is sent with its status; a rejection is sent as an error message
  through the reply callback.
\<close>

datatype response = Readable nat | ErrorResponse jsval | Plain jsval

datatype dispatched = Fulfilled jsval response | Failed jsval

definition parent_on_dispatched :: "dispatched \<Rightarrow> effect list \<times> js_exn option" where
  "parent_on_dispatched d =
     (case d of
        Fulfilled status (Readable r) \<Rightarrow> ([], None)
      | Fulfilled status (ErrorResponse e) \<Rightarrow> ([Send e], None)
      | Fulfilled status (Plain v) \<Rightarrow> ([Send (JObj [(''status'', status), (''message'', v)])], None)
      | Failed err \<Rightarrow>
          (if nullish err then ([], Some TypeError) else ([Send (error_message err)], None)))"

section \<open>Parent side: the child process exits\<close>

text \<open>
  The \<open>exit\<close> case of the listener on the spawn response; \<open>data\<close> is the event, already
  read for its \<open>type\<close>. Every watcher of \<open>this.watchers\<close> is closed and deleted, then the
  object is replaced by an empty one. The class \<open>PluginError\<close> comes from
  \<open>./plugin-error\<close>, which is outside these sources: \<open>PluginError m\<close> stands for the
  properties of the object \<open>new PluginError(m)\<close>, whatever the class makes of \<open>m\<close>.
\<close>

definition activation_failure_message :: "jsval \<Rightarrow> jsval" where
  "activation_failure_message code =
     JStr (''Failed to activate plugin (code '' @ to_string code @ '')'')"

definition on_exit ::
  "(jsval \<Rightarrow> (string \<times> jsval) list) \<Rightarrow> jsval \<Rightarrow> host \<Rightarrow> host \<times> effect list" where
  "on_exit PluginError data h =
     (let state = info_state h;
          closes = map (\<lambda>(dir, w). WatcherClose w) (watchers h);
          h1 = h\<lparr>tunnel := None, info_pid := JNull, watchers := []\<rparr>
      in if truthy (field data ''code'') then
           (let h2 = h1\<lparr>info_exitCode := field data ''code''\<rparr>
            in if state = STARTING then
                 (let h3 = (if \<not> truthy (info_error h2)
                            then h2\<lparr>info_error := activation_failure_message (field data ''code'')\<rparr>
                            else h2);
                      err0 = PluginError (info_error h3);
                      err = JObj (if truthy (info_stack h3)
                                  then set_field ''stack'' (info_stack h3) err0 else err0)
                  in (h3, closes @ [StartReject err, SetState STOPPED err]))
               else (h2, closes @ [SetState STOPPED JUndefined]))
         else (h1, closes @ [SetState STOPPED JUndefined]))"

section \<open>Child side: the plugin runtime\<close>






text \<open>
  The end of \<open>startChild\<close>: the configuration subscription, then \<open>activate()\<close>, then
  the \<open>activated\<close> event, with one \<open>catch\<close> for all of it. The subscription step
  either lets the chain go on (the first configuration event arrived), is rejected
  (logged, and the chain goes on), never settles, or throws into the chain.
  \<open>activation_failure_code\<close> is the literal of \<open>process.exit(6)\<close>.
\<close>

datatype config_step = ConfigReady | ConfigRejected js_exn | ConfigNever | ConfigThrew js_exn

definition activation_failure_code :: int where
  "activation_failure_code = 6"

definition on_activation_failed :: "jsval \<Rightarrow> effect list" where
  "on_activation_failed err =
     LogError err #
     (if nullish err then []
      else [TunnelEmit (JObj [(''message'', field err ''message''),
                              (''stack'', field err ''stack''),
                              (''type'', JStr ''activation_error'')]),
            ProcessExit activation_failure_code])"

definition activate_then_report :: "unit promise \<Rightarrow> effect list" where
  "activate_then_report activate =
     (case activate of
        Resolved u \<Rightarrow> [TunnelEmit (JObj [(''type'', JStr ''activated'')])]
      | Rejected err \<Rightarrow> on_activation_failed (exn_value err)
      | Pending \<Rightarrow> [])"

definition startChild :: "config_step \<Rightarrow> unit promise \<Rightarrow> effect list" where
  "startChild config activate =
     TunnelSend (JObj [(''path'', JStr ''/appcd/config''),
                       (''data'', JObj [(''type'', JStr ''subscribe'')])]) #
     (case config of
        ConfigReady \<Rightarrow> activate_then_report activate
      | ConfigRejected err \<Rightarrow>
          [LogWarn (JStr ''Failed to subscribe to config''), LogWarn (exn_value err)]
          @ activate_then_report activate
      | ConfigNever \<Rightarrow> []
      | ConfigThrew err \<Rightarrow> on_activation_failed (exn_value err))"

section \<open>Plugin descriptor\<close>

text \<open>
  The constructor of \<open>PluginInfo\<close>. What it asks of the filesystem, of \<open>path\<close>, of
  \<open>process.version\<close> and of \<open>semver.satisfies\<close> is given by an environment;
  \<open>read_json f\<close> is \<open>JSON.parse(fs.readFileSync(f, 'utf8'))\<close>, with the message of the
  exception when either throws.
\<close>

record environment =
  isDir :: "string \<Rightarrow> bool"
  isFile :: "string \<Rightarrow> bool"
  read_json :: "string \<Rightarrow> string + jsval"
  path_join :: "string \<Rightarrow> string \<Rightarrow> string"
  expandPath :: "string \<Rightarrow> string \<Rightarrow> string"
  process_version :: string
  satisfies :: "string \<Rightarrow> jsval \<Rightarrow> bool"

record plugin_info =
  pi_path :: string
  pi_name :: jsval
  pi_version :: jsval
  pi_id :: string
  pi_type :: string
  pi_nodeVersion :: jsval
  pi_pid :: jsval

definition ends_with_js :: "string \<Rightarrow> bool" where
  "ends_with_js f = (3 \<le> length f \<and> drop (length f - 3) f = ''.js'')"

definition throw_Error :: "string \<Rightarrow> js_exn + 'a" where
  "throw_Error m = Inl (Thrown (new_Error (JStr m)))"

definition version_mismatch :: "jsval \<Rightarrow> string \<Rightarrow> string" where
  "version_mismatch nodeVersion running =
     ''Internal plugin requires Node.js '' @ to_string nodeVersion
       @ '', but core is currently running '' @ running"

definition PluginInfo :: "environment \<Rightarrow> string \<Rightarrow> js_exn + plugin_info" where
  "PluginInfo env dir =
     (if \<not> isDir env dir then throw_Error (''Plugin directory does not exist: '' @ dir)
      else if \<not> isFile env (path_join env dir ''package.json'') then
        throw_Error (''Plugin directory does not contain a package.json: '' @ dir)
      else
        (case read_json env (path_join env dir ''package.json'') of
           Inl m \<Rightarrow>
             throw_Error (''Error reading plugin '' @ path_join env dir ''package.json''
                            @ '': '' @ m)
         | Inr pkgJson \<Rightarrow>
             if nullish pkgJson then Inl TypeError
             else if \<not> truthy (field pkgJson ''name'') then
               throw_Error (''Plugin package.json doesn'' @ [CHR 0x27] @ ''t have a name: '' @ dir)
             else
               (let main = js_or (field pkgJson ''main'') (JStr ''index.js'');
                    mainFile = (if ends_with_js (to_string main) then to_string main
                                else to_string main @ ''.js'')
                in if \<not> isFile env (expandPath env dir mainFile) then
                     throw_Error (''Unable to find main file: '' @ to_string main)
                   else
                     (let type = (if truthy (field pkgJson ''appcd'')
                                     \<and> field (field pkgJson ''appcd'') ''type'' = JStr ''internal''
                                  then ''internal'' else ''external'');
                          nodeVersion = js_and (field pkgJson ''engines'')
                                               (field (field pkgJson ''engines'') ''node'')
                      in if \<not> truthy nodeVersion then
                           Inr \<lparr>pi_path = dir, pi_name = field pkgJson ''name'',
                                pi_version = field pkgJson ''version'',
                                pi_id = to_string (field pkgJson ''name'') @ ''@''
                                          @ to_string (field pkgJson ''version''),
                                pi_type = type, pi_nodeVersion = JStr (process_version env),
                                pi_pid = JNull\<rparr>
                         else if type = ''internal''
                                 \<and> \<not> satisfies env (process_version env) nodeVersion then
                           throw_Error (version_mismatch nodeVersion (process_version env))
                         else
                           Inr \<lparr>pi_path = dir, pi_name = field pkgJson ''name'',
                                pi_version = field pkgJson ''version'',
                                pi_id = to_string (field pkgJson ''name'') @ ''@''
                                          @ to_string (field pkgJson ''version''),
                                pi_type = type, pi_nodeVersion = nodeVersion,
                                pi_pid = JNull\<rparr>))))"

section \<open>Notions the statements use\<close>






text \<open>A host as the constructor of \<open>ExternalPlugin\<close> leaves it (no Tunnel, no watcher,
  no stream), in a given lifecycle state.\<close>

definition host0 :: "plugin_state \<Rightarrow> host" where
  "host0 st = \<lparr>tunnel = None, info_pid = JNull, info_exitCode = JNull, info_error = JNull,
               info_stack = JNull, info_state = st, info_stats = JNull,
               watchers = [], streams = Map.empty, streams_proto = None\<rparr>"

section \<open>Theorems\<close>

subsection \<open>Objects\<close>

lemma map_of_set_field:
  "map_of (set_field k v fs) k' = (if k' = k then Some v else map_of fs k')"
  by (induction fs) auto




subsection \<open>The relay, one listener after the other\<close>












subsection \<open>The claims\<close>

text \<open>
  C10. While the Tunnel is not initialised (\<open>this.tunnel\<close> is \<open>null\<close>), every call of
  \<open>globals.appcd.call\<close> returns a promise rejected with an \<open>Error\<close> whose message is
  \<open>Tunnel not initialized!\<close>, and nothing is written to a transport: the list of effects
  is empty.
\<close>

theorem appcd_call_no_tunnel:
  "appcd_call None path data =
     ([], Rejected (Thrown (new_Error (JStr ''Tunnel not initialized!''))))
   \<and> get_prop (new_Error (JStr ''Tunnel not initialized!'')) ''message''
       = Inr (JStr ''Tunnel not initialized!'')"
  by (simp add: appcd_call_def new_Error_def get_prop_def nullish_def)

text \<open>
  C4. Parent-side \<open>dispatch(ctx, next)\<close>: with no Tunnel it returns \<open>next()\<close> and sends
  nothing. With a Tunnel it sends exactly one message, \<open>{path: ctx.path, data:
  ctx.request}\<close>; when the reply's status is the number 404 the result is \<open>next()\<close>;
  for any other status the promise resolves with the context, its status and response
  set to the reply's.
\<close>

theorem dispatch_forwards:
  "dispatch None ctx = ([], Next)
   \<and> fst (dispatch (Some t) ctx)
       = [TunnelSend (JObj [(''path'', ctx_path ctx), (''data'', ctx_request ctx)])]
   \<and> (t (JObj [(''path'', ctx_path ctx), (''data'', ctx_request ctx)]) = Resolved res
        \<and> get_prop res ''status'' = Inr (JNum 404)
        \<longrightarrow> snd (dispatch (Some t) ctx) = Next)
   \<and> (t (JObj [(''path'', ctx_path ctx), (''data'', ctx_request ctx)]) = Resolved res
        \<and> get_prop res ''status'' = Inr status \<and> status \<noteq> JNum 404
        \<and> get_prop res ''response'' = Inr response
        \<longrightarrow> snd (dispatch (Some t) ctx)
            = Ctx (ctx\<lparr>ctx_status := status, ctx_response := response\<rparr>))"
  by (simp add: dispatch_def Let_def)

theorem dispatch_forwards_witness:
  "snd (dispatch (Some (\<lambda>m. Resolved (JObj [(''status'', JNum 404)])))
          \<lparr>ctx_path = JStr ''/info'', ctx_request = JNull,
           ctx_status = JUndefined, ctx_response = JUndefined\<rparr>) = Next
   \<and> snd (dispatch
            (Some (\<lambda>m. Resolved (JObj [(''status'', JNum 200), (''response'', JStr ''ok'')])))
            \<lparr>ctx_path = JStr ''/info'', ctx_request = JNull,
             ctx_status = JUndefined, ctx_response = JUndefined\<rparr>)
       = Ctx \<lparr>ctx_path = JStr ''/info'', ctx_request = JNull,
              ctx_status = JNum 200, ctx_response = JStr ''ok''\<rparr>"
  using
    dispatch_forwards [of
      "\<lparr>ctx_path = JStr ''/info'', ctx_request = JNull,
        ctx_status = JUndefined, ctx_response = JUndefined\<rparr>"
      "\<lambda>m. Resolved (JObj [(''status'', JNum 404)])"
      "JObj [(''status'', JNum 404)]" "JNum 404" JUndefined]
    dispatch_forwards [of
      "\<lparr>ctx_path = JStr ''/info'', ctx_request = JNull,
        ctx_status = JUndefined, ctx_response = JUndefined\<rparr>"
      "\<lambda>m. Resolved (JObj [(''status'', JNum 200), (''response'', JStr ''ok'')])"
      "JObj [(''status'', JNum 200), (''response'', JStr ''ok'')]" "JNum 200" "JStr ''ok''"]
  by (simp add: get_prop_def nullish_def)





text \<open>
  C5. A relayed stream that forwards a subscription announcement and a plain item and
  then errors with an \<open>Error\<close> that has no status: the registration of the
  subscription id is removed, the error is logged, and the error message (message,
  stack, status 500, type \<open>error\<close>) is built, but it is handed to \<open>this.send\<close>, not to
  the Tunnel's reply callback: through the callback only the two items have gone. A
  rejection of the dispatcher call itself, caught at the end of the same promise
  chain, does send that very message through the callback.
\<close>

theorem stream_error_bypasses_reply_callback:
  "fst (snd (parent_relay 7
      [Data (JObj [(''type'', JStr ''subscribe''), (''sid'', JStr ''s1'')]),
       Data (JStr ''tick''),
       Error (new_Error (JStr ''boom''))] (host0 STARTED)))
     = [Send (JObj [(''type'', JStr ''subscribe''), (''sid'', JStr ''s1'')]),
        Send (JStr ''tick''),
        LogError (JStr ''Response stream error:''),
        LogError (new_Error (JStr ''boom'')),
        ThisSend (JObj [(''message'', JStr ''boom''), (''stack'', JUndefined),
                        (''status'', JNum 500), (''type'', JStr ''error'')])]
   \<and> sent (fst (snd (parent_relay 7
      [Data (JObj [(''type'', JStr ''subscribe''), (''sid'', JStr ''s1'')]),
       Data (JStr ''tick''),
       Error (new_Error (JStr ''boom''))] (host0 STARTED))))
     = [JObj [(''type'', JStr ''subscribe''), (''sid'', JStr ''s1'')], JStr ''tick'']
   \<and> streams (self (fst (parent_relay 7
      [Data (JObj [(''type'', JStr ''subscribe''), (''sid'', JStr ''s1'')]),
       Data (JStr ''tick''),
       Error (new_Error (JStr ''boom''))] (host0 STARTED)))) ''s1'' = None
   \<and> sent (fst (snd (child_relay
      [Data (JObj [(''type'', JStr ''subscribe''), (''sid'', JStr ''s1'')]),
       Data (JStr ''tick''),
       Error (new_Error (JStr ''boom''))] ())))
     = [JObj [(''type'', JStr ''subscribe''), (''sid'', JStr ''s1'')],
        JObj [(''message'', JStr ''tick''), (''type'', JStr ''event'')]]
   \<and> parent_on_dispatched (Failed (new_Error (JStr ''boom'')))
     = ([Send (JObj [(''message'', JStr ''boom''), (''stack'', JUndefined),
                     (''status'', JNum 500), (''type'', JStr ''error'')])], None)"
  by (simp add: parent_relay_def child_relay_def new_relay_def host0_def parent_on_data_def
        parent_on_error_def child_on_data_def child_on_error_def child_res_def
        parent_on_dispatched_def error_message_def new_Error_def nullish_def js_or_def
        streams_put_def streams_delete_def Let_def)

text \<open>
  C8. An \<open>unsubscribe\<close> message at the parent whose subscription id is registered ends
  the stream and removes the registration, and one whose id is an ordinary unknown
  string does nothing. But the registry is a plain object read with
  \<open>this.streams[req.sid]\<close>: for an id that names a property every object inherits, such
  as \<open>toString\<close> or \<open>__proto__\<close>, the read finds the inherited value, which is truthy
  and has no \<open>end\<close>, so the handler raises a \<open>TypeError\<close> although nothing is
  registered under that id.
\<close>

theorem unsubscribe_inherited_key_raises:
  "parent_on_message through lid
      (JObj [(''type'', JStr ''unsubscribe''), (''sid'', JStr ''toString'')]) (host0 STARTED)
     = (host0 STARTED, [], Some TypeError)
   \<and> parent_on_message through lid
      (JObj [(''type'', JStr ''unsubscribe''), (''sid'', JStr ''__proto__'')]) (host0 STARTED)
     = (host0 STARTED, [], Some TypeError)
   \<and> parent_on_message through lid
      (JObj [(''type'', JStr ''unsubscribe''), (''sid'', JStr ''s2'')]) (host0 STARTED)
     = (host0 STARTED, [], None)
   \<and> parent_on_message through lid
      (JObj [(''type'', JStr ''unsubscribe''), (''sid'', JStr ''s1'')])
      ((host0 STARTED)\<lparr>streams := [''s1'' \<mapsto> 7]\<rparr>)
     = ((host0 STARTED)\<lparr>streams := [''s1'' \<mapsto> 7](''s1'' := None)\<rparr>, [StreamEnd 7], None)"
  by (simp add: parent_on_message_def streams_get_def streams_delete_def
        object_prototype_keys_def host0_def nullish_def)

text \<open>For every id that is not the name of an inherited property, on a registry whose
  prototype has not been replaced, the handler does as C8 says: a registered stream is
  ended once and its registration removed, an unknown id is left alone, and a second
  \<open>unsubscribe\<close> after the first does nothing.\<close>

lemma unsubscribe_ordinary_key:
  assumes "\<not> nullish req" and "field req ''type'' = JStr ''unsubscribe''"
      and "streams_proto h = None"
      and "to_string (field req ''sid'') \<notin> set object_prototype_keys"
  shows "streams h (to_string (field req ''sid'')) = Some r \<Longrightarrow>
           parent_on_message through lid req h
             = (h\<lparr>streams := (streams h)(to_string (field req ''sid'') := None)\<rparr>,
                [StreamEnd r], None)"
    and "streams h (to_string (field req ''sid'')) = None \<Longrightarrow>
           parent_on_message through lid req h = (h, [], None)"
    and "parent_on_message through lid req (fst (parent_on_message through lid req h))
           = (fst (parent_on_message through lid req h), [], None)"
  using assms
  by (auto simp: parent_on_message_def streams_get_def streams_delete_def
      split: option.splits)

text \<open>
  C2, as the code has it. The child process exits with a truthy exit code (any
  number but 0) while the lifecycle state is \<open>STARTING\<close>. Let \<open>m\<close> be the error
  captured in \<open>info.error\<close> or, when none was captured, the string
  \<open>Failed to activate plugin (code N)\<close>, N the exit code. The handler records the exit
  code and \<open>m\<close>, clears the Tunnel and the process id, closes the watchers, then
  rejects the promise of \<open>start()\<close> with \<open>new PluginError(m)\<close>, its \<open>stack\<close> replaced by
  the captured \<open>info.stack\<close> when there is one, and calls \<open>setState(STOPPED, err)\<close> with
  the same error. An \<open>activation_error\<close> event is what captures \<open>info.error\<close> and
  \<open>info.stack\<close>: it stores the event's message and stack.
\<close>

theorem exit_while_starting_rejects:
  assumes "info_state h = STARTING" and "truthy (field data ''code'')"
  shows "on_exit PluginError data h
           = (h\<lparr>tunnel := None, info_pid := JNull, watchers := [],
                info_exitCode := field data ''code'',
                info_error :=
                  (if truthy (info_error h) then info_error h
                   else JStr (''Failed to activate plugin (code ''
                                @ to_string (field data ''code'') @ '')''))\<rparr>,
              map (\<lambda>(dir, w). WatcherClose w) (watchers h)
              @ [StartReject (JObj
                   (if truthy (info_stack h)
                    then set_field ''stack'' (info_stack h)
                           (PluginError
                             (if truthy (info_error h) then info_error h
                              else JStr (''Failed to activate plugin (code ''
                                           @ to_string (field data ''code'') @ '')'')))
                    else PluginError
                           (if truthy (info_error h) then info_error h
                            else JStr (''Failed to activate plugin (code ''
                                         @ to_string (field data ''code'') @ '')'')))),
                 SetState STOPPED (JObj
                   (if truthy (info_stack h)
                    then set_field ''stack'' (info_stack h)
                           (PluginError
                             (if truthy (info_error h) then info_error h
                              else JStr (''Failed to activate plugin (code ''
                                           @ to_string (field data ''code'') @ '')'')))
                    else PluginError
                           (if truthy (info_error h) then info_error h
                            else JStr (''Failed to activate plugin (code ''
                                         @ to_string (field data ''code'') @ '')''))))])
       \<and> field (JObj (set_field ''stack'' (info_stack h) (PluginError m))) ''stack''
           = info_stack h
       \<and> (\<not> nullish req \<and> field req ''type'' = JStr ''activation_error'' \<longrightarrow>
            parent_on_message through lid req h
              = (h\<lparr>info_error := field req ''message'', info_stack := field req ''stack''\<rparr>,
                 [], None))"
  using assms
  by (simp add: on_exit_def Let_def activation_failure_message_def parent_on_message_def
        map_of_set_field)

theorem exit_while_starting_rejects_witness:
  "snd (on_exit (\<lambda>m. [(''message'', m)])
          (JObj [(''type'', JStr ''exit''), (''code'', JNum 6)])
          ((host0 STARTING)\<lparr>watchers := [(''/plugin'', 3)]\<rparr>))
     = [WatcherClose 3,
        StartReject (JObj [(''message'', JStr ''Failed to activate plugin (code 6)'')]),
        SetState STOPPED (JObj [(''message'', JStr ''Failed to activate plugin (code 6)'')])]"
proof -
  have "to_string (JNum 6) = ''6''"
    by code_simp
  then show ?thesis
    using exit_while_starting_rejects [of "(host0 STARTING)\<lparr>watchers := [(''/plugin'', 3)]\<rparr>"
      "JObj [(''type'', JStr ''exit''), (''code'', JNum 6)]" "\<lambda>m. [(''message'', m)]"
      JNull JNull "\<lambda>p k. Vacant" JNull]
    by (simp add: host0_def)
qed

text \<open>The claim as written fails for a child that exits with code 0 while the state is
  \<open>STARTING\<close>: nothing rejects the promise of \<open>start()\<close>.\<close>

theorem exit_code_zero_while_starting_counterexample:
  "snd (on_exit (\<lambda>m. [(''message'', m)])
          (JObj [(''type'', JStr ''exit''), (''code'', JNum 0)])
          ((host0 STARTING)\<lparr>watchers := [(''/plugin'', 3)]\<rparr>))
     = [WatcherClose 3, SetState STOPPED JUndefined]"
  by (simp add: on_exit_def host0_def)

text \<open>
  C3, as the code has it. The child process exits with a truthy exit code while the
  lifecycle state is \<open>STARTED\<close> (or any state but \<open>STARTING\<close>): the exit code is
  recorded, the Tunnel reference and the process id are cleared, every watcher of
  \<open>this.watchers\<close> is closed and the table emptied, and \<open>setState(STOPPED)\<close> is called
  with no error. No error is made or captured, and the promise of \<open>start()\<close> is not
  touched.
\<close>

theorem exit_while_started_stops:
  assumes "info_state h \<noteq> STARTING" and "truthy (field data ''code'')"
  shows "on_exit PluginError data h
           = (h\<lparr>tunnel := None, info_pid := JNull, watchers := [],
                info_exitCode := field data ''code''\<rparr>,
              map (\<lambda>(dir, w). WatcherClose w) (watchers h) @ [SetState STOPPED JUndefined])"
  using assms by (simp add: on_exit_def Let_def)

theorem exit_while_started_stops_witness:
  "on_exit (\<lambda>m. [(''message'', m)]) (JObj [(''type'', JStr ''exit''), (''code'', JNum 137)])
      ((host0 STARTED)\<lparr>tunnel := Some (\<lambda>m. Pending), info_pid := JNum 4242,
                        watchers := [(''/plugin'', 3), (''/plugin/lib'', 4)]\<rparr>)
     = ((host0 STARTED)\<lparr>info_exitCode := JNum 137\<rparr>,
        [WatcherClose 3, WatcherClose 4, SetState STOPPED JUndefined])"
  using exit_while_started_stops [of
      "(host0 STARTED)\<lparr>tunnel := Some (\<lambda>m. Pending), info_pid := JNum 4242,
                        watchers := [(''/plugin'', 3), (''/plugin/lib'', 4)]\<rparr>"
      "JObj [(''type'', JStr ''exit''), (''code'', JNum 137)]" "\<lambda>m. [(''message'', m)]"]
  by (simp add: host0_def)

text \<open>The claim as written fails: a started plugin whose child exits with code 137 is
  stopped with no error captured. The error handed to \<open>setState\<close> is \<open>undefined\<close>, and
  \<open>info.error\<close> stays as it was.\<close>

theorem crash_error_not_captured_counterexample:
  "snd (on_exit (\<lambda>m. [(''message'', m)])
          (JObj [(''type'', JStr ''exit''), (''code'', JNum 137)])
          ((host0 STARTED)\<lparr>watchers := [(''/plugin'', 3)]\<rparr>))
     = [WatcherClose 3, SetState STOPPED JUndefined]
   \<and> info_error (fst (on_exit (\<lambda>m. [(''message'', m)])
          (JObj [(''type'', JStr ''exit''), (''code'', JNum 137)])
          ((host0 STARTED)\<lparr>watchers := [(''/plugin'', 3)]\<rparr>))) = JNull"
  by (simp add: on_exit_def host0_def)





text \<open>
  C7. Activation that rejects with an \<open>Error\<close> is reported as the claim says: the child
  logs the error, emits the \<open>activation_error\<close> event with its message and stack, and
  exits with code 6. Activation that rejects with \<open>undefined\<close> (a bare
  \<open>Promise.reject()\<close>, or \<open>throw undefined\<close>) is not: the same \<open>catch\<close> logs the value
  and then raises on reading its \<open>message\<close>, so no event is emitted and the process is
  not exited.
\<close>

theorem activation_rejecting_undefined_not_reported:
  "startChild ConfigReady (Rejected (Thrown JUndefined))
     = [TunnelSend (JObj [(''path'', JStr ''/appcd/config''),
                          (''data'', JObj [(''type'', JStr ''subscribe'')])]),
        LogError JUndefined]
   \<and> startChild ConfigReady (Rejected (Thrown JNull))
     = [TunnelSend (JObj [(''path'', JStr ''/appcd/config''),
                          (''data'', JObj [(''type'', JStr ''subscribe'')])]),
        LogError JNull]
   \<and> startChild ConfigReady (Rejected (Thrown (new_Error (JStr ''no such module''))))
     = [TunnelSend (JObj [(''path'', JStr ''/appcd/config''),
                          (''data'', JObj [(''type'', JStr ''subscribe'')])]),
        LogError (new_Error (JStr ''no such module'')),
        TunnelEmit (JObj [(''message'', JStr ''no such module''),
                          (''stack'', JUndefined),
                          (''type'', JStr ''activation_error'')]),
        ProcessExit 6]"
  by (simp add: startChild_def activate_then_report_def on_activation_failed_def
       activation_failure_code_def new_Error_def nullish_def)

text \<open>For every rejection value but \<open>undefined\<close> and \<open>null\<close>, whether the configuration
  subscription succeeded or was rejected before it, the error is logged, the
  \<open>activation_error\<close> event carries its message and stack, and the child exits,
  always with the same code, which is neither 0, the code of the exit after
  \<open>deactivate\<close>, nor 1, the code the runtime exits with on an uncaught exception.\<close>

lemma activation_failure_reported:
  assumes "\<not> nullish (exn_value err)"
  shows "startChild ConfigReady (Rejected err)
           = [TunnelSend (JObj [(''path'', JStr ''/appcd/config''),
                                (''data'', JObj [(''type'', JStr ''subscribe'')])]),
              LogError (exn_value err),
              TunnelEmit (JObj [(''message'', field (exn_value err) ''message''),
                                (''stack'', field (exn_value err) ''stack''),
                                (''type'', JStr ''activation_error'')]),
              ProcessExit activation_failure_code]
       \<and> startChild (ConfigRejected e) (Rejected err)
           = [TunnelSend (JObj [(''path'', JStr ''/appcd/config''),
                                (''data'', JObj [(''type'', JStr ''subscribe'')])]),
              LogWarn (JStr ''Failed to subscribe to config''), LogWarn (exn_value e),
              LogError (exn_value err),
              TunnelEmit (JObj [(''message'', field (exn_value err) ''message''),
                                (''stack'', field (exn_value err) ''stack''),
                                (''type'', JStr ''activation_error'')]),
              ProcessExit activation_failure_code]
       \<and> activation_failure_code \<noteq> 0 \<and> activation_failure_code \<noteq> 1"
  using assms
  by (simp add: startChild_def activate_then_report_def on_activation_failed_def
       activation_failure_code_def)

text \<open>
  C9. A plugin directory that passes the constructor's earlier checks (the directory
  and its \<open>package.json\<close> exist, the manifest parses to a value with a name, the main
  file exists), whose manifest marks the plugin \<open>internal\<close> and declares a Node.js
  requirement that the running version does not satisfy: the constructor throws the
  version-mismatch error. And whatever the directory holds, a descriptor the
  constructor does return for an internal plugin has a Node.js version that is the
  running one or a requirement the running one satisfies.
\<close>

theorem internal_version_mismatch:
  assumes "isDir env dir"
      and "isFile env (path_join env dir ''package.json'')"
      and "read_json env (path_join env dir ''package.json'') = Inr pkgJson"
      and "\<not> nullish pkgJson" and "truthy (field pkgJson ''name'')"
      and "isFile env (expandPath env dir
             (if ends_with_js (to_string (js_or (field pkgJson ''main'') (JStr ''index.js'')))
              then to_string (js_or (field pkgJson ''main'') (JStr ''index.js''))
              else to_string (js_or (field pkgJson ''main'') (JStr ''index.js'')) @ ''.js''))"
      and "field (field pkgJson ''appcd'') ''type'' = JStr ''internal''"
      and "truthy (field (field pkgJson ''engines'') ''node'')"
      and "\<not> satisfies env (process_version env) (field (field pkgJson ''engines'') ''node'')"
  shows "PluginInfo env dir
           = Inl (Thrown (new_Error (JStr (
               ''Internal plugin requires Node.js ''
                 @ to_string (field (field pkgJson ''engines'') ''node'')
                 @ '', but core is currently running '' @ process_version env))))
       \<and> (\<forall>env' dir' d. PluginInfo env' dir' = Inr d \<and> pi_type d = ''internal'' \<longrightarrow>
             pi_nodeVersion d = JStr (process_version env')
             \<or> satisfies env' (process_version env') (pi_nodeVersion d))"
proof -
  have a: "truthy (field pkgJson ''appcd'')"
    using assms(7) by (cases "field pkgJson ''appcd''") auto
  have e: "truthy (field pkgJson ''engines'')"
    using assms(8) by (cases "field pkgJson ''engines''") auto
  have m: "PluginInfo env dir
           = Inl (Thrown (new_Error (JStr (
               ''Internal plugin requires Node.js ''
                 @ to_string (field (field pkgJson ''engines'') ''node'')
                 @ '', but core is currently running '' @ process_version env))))"
    using assms a e
    by (simp add: PluginInfo_def Let_def js_and_def throw_Error_def version_mismatch_def)
  have i: "\<forall>env' dir' d. PluginInfo env' dir' = Inr d \<and> pi_type d = ''internal'' \<longrightarrow>
             pi_nodeVersion d = JStr (process_version env')
             \<or> satisfies env' (process_version env') (pi_nodeVersion d)"
    by (auto simp: PluginInfo_def Let_def throw_Error_def split: if_splits sum.splits)
  from m i show ?thesis by simp
qed


theorem internal_version_mismatch_witness:
  "PluginInfo
      \<lparr>isDir = (\<lambda>d. d = ''/plugins/foo''), isFile = (\<lambda>f. True),
       read_json = (\<lambda>f. Inr (JObj [(''name'', JStr ''foo''), (''version'', JStr ''1.0.0''),
                                      (''appcd'', JObj [(''type'', JStr ''internal'')]),
                                      (''engines'', JObj [(''node'', JStr ''>=8.0.0'')])])),
       path_join = (\<lambda>a b. a @ ''/'' @ b), expandPath = (\<lambda>a b. a @ ''/'' @ b),
       process_version = ''v6.11.0'', satisfies = (\<lambda>v range. False)\<rparr>
      ''/plugins/foo''
     = Inl (Thrown (new_Error (JStr
         ''Internal plugin requires Node.js >=8.0.0, but core is currently running v6.11.0'')))"
  using internal_version_mismatch [of
      "\<lparr>isDir = (\<lambda>d. d = ''/plugins/foo''), isFile = (\<lambda>f. True),
        read_json = (\<lambda>f. Inr (JObj [(''name'', JStr ''foo''), (''version'', JStr ''1.0.0''),
                                       (''appcd'', JObj [(''type'', JStr ''internal'')]),
                                       (''engines'', JObj [(''node'', JStr ''>=8.0.0'')])])),
        path_join = (\<lambda>a b. a @ ''/'' @ b), expandPath = (\<lambda>a b. a @ ''/'' @ b),
        process_version = ''v6.11.0'', satisfies = (\<lambda>v range. False)\<rparr>"
      "''/plugins/foo''"
      "JObj [(''name'', JStr ''foo''), (''version'', JStr ''1.0.0''),
             (''appcd'', JObj [(''type'', JStr ''internal'')]),
             (''engines'', JObj [(''node'', JStr ''>=8.0.0'')])]"]
  by (simp add: nullish_def)

end
